theory Spec2Isabelle
  imports Main "HOL-Library.List_Lexorder"
begin

section \<open>Subdomain enumeration: the data model\<close>

text \<open>
  The development follows \<^verbatim>\<open>subdomain_enumeration.py\<close>, class
  \<^verbatim>\<open>SubdomainEnumerator\<close>. A Python \<^verbatim>\<open>str\<close> is the list of its code points,
  each a natural number, so that text read from a UTF-8 file keeps every character.
  Python compares strings lexicographically by code point, which is the order that
  \<open>HOL-Library.List_Lexorder\<close> gives to lists of numbers.
\<close>

type_synonym pystr = "nat list"

text \<open>The code points of a literal.\<close>

definition py :: "string \<Rightarrow> pystr" where
  "py s = map of_char s"

text \<open>
  The dictionary \<^verbatim>\<open>result\<close> built by \<^verbatim>\<open>check_subdomain\<close>: the same eight
  keys, \<^verbatim>\<open>None\<close> as \<open>None\<close>.
\<close>

record probe_result =
  subdomain :: pystr
  http_accessible :: bool
  https_accessible :: bool
  http_status :: "int option"
  https_status :: "int option"
  ip_address :: "pystr option"
  server :: "pystr option"
  discovered_at :: pystr

text \<open>
  The shared mutable fields of the enumerator: the list
  \<^verbatim>\<open>self.discovered_subdomains\<close> and the counters of \<^verbatim>\<open>self.stats\<close>
  (\<^verbatim>\<open>start_time\<close>, a float read only for the elapsed time, is left out).
\<close>

record enum_state =
  discovered_subdomains :: "probe_result list"
  tested :: int
  discovered :: int
  errors :: int

text \<open>\<^verbatim>\<open>__init__\<close>: an empty list and three zero counters.\<close>

definition init_state :: enum_state where
  "init_state = \<lparr>discovered_subdomains = [], tested = 0, discovered = 0, errors = 0\<rparr>"

text \<open>
  The arguments of \<^verbatim>\<open>__init__\<close> that the probes and the pool read:
  \<^verbatim>\<open>self.domain\<close>, \<^verbatim>\<open>self.max_threads\<close> and \<^verbatim>\<open>self.verbose\<close>.
\<close>

record enumerator =
  domain :: pystr
  max_threads :: int
  verbose :: bool

subsection \<open>The network and the console, as the probe sees them\<close>

text \<open>
  The classes of exception the handlers of \<^verbatim>\<open>check_subdomain\<close> tell apart:
  \<^verbatim>\<open>socket.gaierror\<close>, \<^verbatim>\<open>requests.RequestException\<close>, and every other
  subclass of \<^verbatim>\<open>Exception\<close> (a \<^verbatim>\<open>UnicodeError\<close> from a label that is empty
  or longer than 63 characters, a \<^verbatim>\<open>ValueError\<close>, a \<^verbatim>\<open>BrokenPipeError\<close> of
  the console, ...).
\<close>

datatype exn = GaiError | RequestException | OtherException

text \<open>What the probe reads of a response: the status code and the Server header.\<close>

record response =
  status_code :: int
  server_header :: "pystr option"

text \<open>
  The lines that the probes, the loop over the futures and the wordlist loader print,
  by their content: \<^verbatim>\<open>[+] Found: host [HTTP:code | HTTPS:code] [ip]\<close> with the
  status parts in order, \<^verbatim>\<open>[-] Error checking host: e\<close>,
  \<^verbatim>\<open>[!] Task error: e\<close>, \<^verbatim>\<open>[+] Loaded n unique subdomains from wordlist\<close>,
  \<^verbatim>\<open>[!] Error loading wordlist: e\<close>, and the four lines printed when the
  wordlist file is not found, by their number.
\<close>

datatype message =
  FoundLine pystr "(pystr \<times> int option) list" "pystr option"
| ErrorLine pystr exn
| TaskErrorLine exn
| LoadedLine nat
| LoadErrorLine exn
| NotFoundLine nat

text \<open>
  The environment answers the calls the probe makes:
  \<^verbatim>\<open>socket.gethostbyname(host)\<close>, \<^verbatim>\<open>self.session.get(url, ...)\<close> (after
  redirects), \<^verbatim>\<open>datetime.now().isoformat()\<close> and \<^verbatim>\<open>print(line)\<close>. A call
  either returns or raises; \<open>Inl\<close> is the exception raised, and for
  \<^verbatim>\<open>print\<close>, which returns nothing, \<open>Some\<close> is.
\<close>

record environment =
  gethostbyname :: "pystr \<Rightarrow> exn + pystr"
  session_get :: "pystr \<Rightarrow> exn + response"
  now_iso :: "pystr \<Rightarrow> pystr"
  console :: "message \<Rightarrow> exn option"

text \<open>The network calls a probe has made, in order.\<close>

datatype net_call = Gethostbyname pystr | SessionGet pystr

section \<open>The probe: \<^verbatim>\<open>check_subdomain\<close>\<close>

text \<open>\<^verbatim>\<open>response.headers.get('Server', 'Unknown')\<close>\<close>

definition headers_get_server :: "response \<Rightarrow> pystr" where
  "headers_get_server resp =
     (case server_header resp of None \<Rightarrow> py ''Unknown'' | Some v \<Rightarrow> v)"

text \<open>
  Python truth of \<^verbatim>\<open>result['server']\<close>: \<^verbatim>\<open>None\<close> and the empty string are
  false.
\<close>

definition truthy :: "pystr option \<Rightarrow> bool" where
  "truthy v = (case v of None \<Rightarrow> False | Some s \<Rightarrow> s \<noteq> [])"

definition http_url :: "pystr \<Rightarrow> pystr" where
  "http_url full_subdomain = py ''http://'' @ full_subdomain"

definition https_url :: "pystr \<Rightarrow> pystr" where
  "https_url full_subdomain = py ''https://'' @ full_subdomain"

text \<open>
  The block \<^verbatim>\<open># Test HTTP\<close>: on a response the three keys are set; a
  \<^verbatim>\<open>RequestException\<close> is passed over; any other exception leaves the block.
\<close>

definition test_http :: "environment \<Rightarrow> pystr \<Rightarrow> probe_result \<Rightarrow> exn + probe_result" where
  "test_http env full_subdomain result =
     (case session_get env (http_url full_subdomain) of
        Inr resp \<Rightarrow>
          Inr (result\<lparr>http_accessible := True,
                      http_status := Some (status_code resp),
                      server := Some (headers_get_server resp)\<rparr>)
      | Inl e \<Rightarrow> (if e = RequestException then Inr result else Inl e))"

text \<open>
  The block \<^verbatim>\<open># Test HTTPS\<close>: the server key is overwritten only
  \<^verbatim>\<open>if not result['server'] or result['server'] == 'Unknown'\<close>.
\<close>

definition test_https :: "environment \<Rightarrow> pystr \<Rightarrow> probe_result \<Rightarrow> exn + probe_result" where
  "test_https env full_subdomain result =
     (case session_get env (https_url full_subdomain) of
        Inr resp \<Rightarrow>
          (let r = result\<lparr>https_accessible := True,
                          https_status := Some (status_code resp)\<rparr>
           in if \<not> truthy (server r) \<or> server r = Some (py ''Unknown'')
              then Inr (r\<lparr>server := Some (headers_get_server resp)\<rparr>)
              else Inr r)
      | Inl e \<Rightarrow> (if e = RequestException then Inr result else Inl e))"

text \<open>The three blocks guarded by \<^verbatim>\<open>with self.lock\<close>.\<close>

definition inc_tested :: "enum_state \<Rightarrow> enum_state" where
  "inc_tested st = st\<lparr>tested := tested st + 1\<rparr>"

definition record_discovered :: "probe_result \<Rightarrow> enum_state \<Rightarrow> enum_state" where
  "record_discovered r st =
     st\<lparr>discovered_subdomains := discovered_subdomains st @ [r],
        discovered := discovered st + 1\<rparr>"

definition inc_errors :: "enum_state \<Rightarrow> enum_state" where
  "inc_errors st = st\<lparr>errors := errors st + 1\<rparr>"

text \<open>The dictionary as it is created, before any network call.\<close>

definition new_result :: "environment \<Rightarrow> pystr \<Rightarrow> probe_result" where
  "new_result env full_subdomain =
     \<lparr>subdomain = full_subdomain, http_accessible = False, https_accessible = False,
      http_status = None, https_status = None, ip_address = None, server = None,
      discovered_at = now_iso env full_subdomain\<rparr>"

text \<open>
  The list \<^verbatim>\<open>status_parts\<close> of the found line: \<^verbatim>\<open>HTTP:\<close> with its status
  when HTTP answered, then \<^verbatim>\<open>HTTPS:\<close> with its status when HTTPS answered.
\<close>

definition status_parts :: "probe_result \<Rightarrow> (pystr \<times> int option) list" where
  "status_parts result =
     (if http_accessible result then [(py ''HTTP'', http_status result)] else []) @
     (if https_accessible result then [(py ''HTTPS'', https_status result)] else [])"

definition found_line :: "pystr \<Rightarrow> probe_result \<Rightarrow> message" where
  "found_line full_subdomain result =
     FoundLine full_subdomain (status_parts result) (ip_address result)"

text \<open>
  The body of the outer \<^verbatim>\<open>try\<close>. It returns what the body returns (\<open>Inr\<close>; the
  fall-through to the final \<^verbatim>\<open>return None\<close> is \<open>Inr None\<close>) or the exception
  that leaves it (\<open>Inl\<close>), the state, and the network calls made. The found line is
  printed inside the \<^verbatim>\<open>try\<close>, after the entry is appended: when the
  \<^verbatim>\<open>print\<close> raises, the entry stays and the exception leaves the body.
\<close>

definition try_body ::
  "environment \<Rightarrow> pystr \<Rightarrow> probe_result \<Rightarrow> enum_state
     \<Rightarrow> (exn + probe_result option) \<times> enum_state \<times> net_call list" where
  "try_body env full_subdomain result st =
     (case gethostbyname env full_subdomain of
        Inl e \<Rightarrow>
          ((if e = GaiError then Inr None else Inl e), st, [Gethostbyname full_subdomain])
      | Inr ip \<Rightarrow>
          (case test_http env full_subdomain (result\<lparr>ip_address := Some ip\<rparr>) of
             Inl e \<Rightarrow>
               (Inl e, st,
                [Gethostbyname full_subdomain, SessionGet (http_url full_subdomain)])
           | Inr r1 \<Rightarrow>
               (case test_https env full_subdomain r1 of
                  Inl e \<Rightarrow>
                    (Inl e, st,
                     [Gethostbyname full_subdomain, SessionGet (http_url full_subdomain),
                      SessionGet (https_url full_subdomain)])
                | Inr r2 \<Rightarrow>
                    (if http_accessible r2 \<or> https_accessible r2
                     then
                       (case console env (found_line full_subdomain r2) of
                          None \<Rightarrow> Inr (Some r2)
                        | Some e \<Rightarrow> Inl e,
                        record_discovered r2 st,
                        [Gethostbyname full_subdomain, SessionGet (http_url full_subdomain),
                         SessionGet (https_url full_subdomain)])
                     else (Inr None, st,
                           [Gethostbyname full_subdomain, SessionGet (http_url full_subdomain),
                            SessionGet (https_url full_subdomain)])))))"

text \<open>\<^verbatim>\<open>full_subdomain = f"{subdomain}.{self.domain}"\<close>\<close>

definition full_name :: "pystr \<Rightarrow> pystr \<Rightarrow> pystr" where
  "full_name base sub = sub @ py ''.'' @ base"

text \<open>
  \<^verbatim>\<open>check_subdomain\<close>: count the probe, run the body, and in the handler
  \<^verbatim>\<open>except Exception\<close> count an error, print the error line when
  \<^verbatim>\<open>self.verbose\<close> is set, and return \<^verbatim>\<open>None\<close>. The first component is what
  the caller gets: \<open>Inr\<close> a return value, \<open>Inl\<close> an exception that escapes, which
  is the one a \<^verbatim>\<open>print\<close> in the handler raises.
\<close>

definition check_subdomain ::
  "enumerator \<Rightarrow> environment \<Rightarrow> pystr \<Rightarrow> enum_state
     \<Rightarrow> (exn + probe_result option) \<times> enum_state \<times> net_call list" where
  "check_subdomain self env sub st =
     (let full_subdomain = full_name (domain self) sub;
          result = new_result env full_subdomain
      in case try_body env full_subdomain result (inc_tested st) of
           (Inr ret, st', calls) \<Rightarrow> (Inr ret, st', calls)
         | (Inl e, st', calls) \<Rightarrow>
             (if verbose self then
                (case console env (ErrorLine full_subdomain e) of
                   None \<Rightarrow> Inr None
                 | Some e' \<Rightarrow> Inl e')
              else Inr None,
              inc_errors st', calls))"

section \<open>Outcomes of the network calls\<close>

text \<open>A call returned rather than raised.\<close>

definition returned :: "exn + 'a \<Rightarrow> bool" where
  "returned r = (case r of Inl _ \<Rightarrow> False | Inr _ \<Rightarrow> True)"

text \<open>A call raised an exception that the handler next to it does not catch.\<close>

definition unexpected :: "exn \<Rightarrow> exn + 'a \<Rightarrow> bool" where
  "unexpected handled r = (case r of Inl e \<Rightarrow> e \<noteq> handled | Inr _ \<Rightarrow> False)"


text \<open>
  The name resolves, no fetch raises outside \<^verbatim>\<open>RequestException\<close>, and at
  least one fetch returns a response.
\<close>

definition reachable :: "environment \<Rightarrow> pystr \<Rightarrow> bool" where
  "reachable env full_subdomain =
     (returned (gethostbyname env full_subdomain) \<and>
      \<not> unexpected RequestException (session_get env (http_url full_subdomain)) \<and>
      \<not> unexpected RequestException (session_get env (https_url full_subdomain)) \<and>
      (returned (session_get env (http_url full_subdomain)) \<or>
       returned (session_get env (https_url full_subdomain))))"

text \<open>
  The HTTP attempt yields a banner that the HTTPS block leaves in place: a Server
  header that is neither empty nor the string \<^verbatim>\<open>Unknown\<close>.
\<close>

definition http_banner :: "environment \<Rightarrow> pystr \<Rightarrow> pystr option" where
  "http_banner env full_subdomain =
     (case session_get env (http_url full_subdomain) of
        Inl e \<Rightarrow> None
      | Inr h \<Rightarrow>
          (case server_header h of
             None \<Rightarrow> None
           | Some v \<Rightarrow> if v \<noteq> [] \<and> v \<noteq> py ''Unknown'' then Some v else None))"

text \<open>An entry with an address and a server string.\<close>

definition complete_entry :: "probe_result \<Rightarrow> bool" where
  "complete_entry r = (ip_address r \<noteq> None \<and> server r \<noteq> None)"


section \<open>The candidate source: \<^verbatim>\<open>load_wordlist\<close>\<close>

text \<open>
  \<^verbatim>\<open>str.isspace\<close> of one character, which \<^verbatim>\<open>str.strip()\<close> goes by: the 29
  white-space code points, U+0009 to U+000D, U+001C to U+0020, U+0085, U+00A0, U+1680,
  U+2000 to U+200A, U+2028, U+2029, U+202F, U+205F and U+3000.
\<close>

definition isspace :: "nat \<Rightarrow> bool" where
  "isspace c =
     ((9 \<le> c \<and> c \<le> 13) \<or> (28 \<le> c \<and> c \<le> 32) \<or> c = 133 \<or> c = 160 \<or> c = 5760 \<or>
      (8192 \<le> c \<and> c \<le> 8202) \<or> c = 8232 \<or> c = 8233 \<or> c = 8239 \<or> c = 8287 \<or>
      c = 12288)"

definition strip :: "pystr \<Rightarrow> pystr" where
  "strip s = rev (dropWhile isspace (rev (dropWhile isspace s)))"

text \<open>
  The case tables of the Python runtime, which are not part of the repository, are a
  parameter: the full lower-case mapping of a code point (one to three code points),
  the test whether a capital sigma at a position of a string is word-final, and the
  upper-case property of a code point.
\<close>

record case_tables =
  to_lower_full :: "nat \<Rightarrow> nat list"
  final_sigma :: "pystr \<Rightarrow> nat \<Rightarrow> bool"
  uppercase :: "nat \<Rightarrow> bool"

text \<open>
  \<^verbatim>\<open>str.lower()\<close>: character by character the full lower-case mapping, except
  that the capital sigma U+03A3 becomes the final sigma U+03C2 at the end of a word
  and the small sigma U+03C3 elsewhere.
\<close>

definition lower_at :: "case_tables \<Rightarrow> pystr \<Rightarrow> nat \<Rightarrow> pystr" where
  "lower_at tables s i =
     (if s ! i = 931 then [if final_sigma tables s i then 962 else 963]
      else to_lower_full tables (s ! i))"

definition lower :: "case_tables \<Rightarrow> pystr \<Rightarrow> pystr" where
  "lower tables s = concat (map (lower_at tables s) [0..<length s])"

text \<open>
  Iterating over a file opened in text mode: universal newlines turn
  \<^verbatim>\<open>\r\n\<close> and a lone \<^verbatim>\<open>\r\<close> into \<^verbatim>\<open>\n\<close>, and every line keeps its
  \<^verbatim>\<open>\n\<close>; a last line without one is a line too. The first argument is the
  line read so far, reversed.
\<close>

fun text_lines :: "pystr \<Rightarrow> pystr \<Rightarrow> pystr list" where
  "text_lines cur [] = (if cur = [] then [] else [rev cur])"
| "text_lines cur (c # cs) =
     (if c = 10 then rev (c # cur) # text_lines [] cs
      else if c = 13 then
        (case cs of
           [] \<Rightarrow> rev (10 # cur) # text_lines [] cs
         | d # ds \<Rightarrow>
             if d = 10 then rev (10 # cur) # text_lines [] ds
             else rev (10 # cur) # text_lines [] cs)
      else text_lines (c # cur) cs)"

text \<open>
  What opening and reading the wordlist gives: the decoded text, or
  \<^verbatim>\<open>FileNotFoundError\<close>, or another exception.
\<close>

datatype file_read = FileContent pystr | FileNotFound | ReadError exn

text \<open>How a function ends when it does not return: \<^verbatim>\<open>sys.exit(1)\<close> or an exception.\<close>

datatype stop = SysExit | Raised exn

text \<open>
  The list \<^verbatim>\<open>subdomains\<close> of \<^verbatim>\<open>load_wordlist\<close>:
  \<^verbatim>\<open>[line.strip().lower() for line in f if line.strip()]\<close>.
\<close>

definition normalised_lines :: "case_tables \<Rightarrow> pystr \<Rightarrow> pystr list" where
  "normalised_lines tables content =
     [lower tables (strip line). line \<leftarrow> text_lines [] content, strip line \<noteq> []]"

text \<open>
  The handler \<^verbatim>\<open>except Exception as e\<close> of \<^verbatim>\<open>load_wordlist\<close>: print the
  error line and return the empty list; an exception of that \<^verbatim>\<open>print\<close> leaves
  the function.
\<close>

definition load_error :: "environment \<Rightarrow> exn \<Rightarrow> stop + pystr list" where
  "load_error env e =
     (case console env (LoadErrorLine e) of None \<Rightarrow> Inr [] | Some e' \<Rightarrow> Inl (Raised e'))"

text \<open>Printing lines one after the other: the first exception, if any.\<close>

fun print_all :: "environment \<Rightarrow> message list \<Rightarrow> exn option" where
  "print_all env [] = None"
| "print_all env (m # ms) =
     (case console env m of None \<Rightarrow> print_all env ms | Some e \<Rightarrow> Some e)"

text \<open>
  \<^verbatim>\<open>load_wordlist\<close>. Python leaves the order of
  \<^verbatim>\<open>list(set(subdomains))\<close> open; \<open>remdups\<close> is one such order, and the
  properties below do not depend on which. The loaded line is printed inside the
  \<^verbatim>\<open>try\<close>: when that \<^verbatim>\<open>print\<close> raises, the handler returns the empty
  list. When the file is not found, four lines are printed and the program exits.
\<close>

definition load_wordlist ::
  "case_tables \<Rightarrow> environment \<Rightarrow> file_read \<Rightarrow> stop + pystr list" where
  "load_wordlist tables env f =
     (case f of
        FileContent content \<Rightarrow>
          (let subdomains = normalised_lines tables content;
               unique_subdomains = remdups subdomains
           in case console env (LoadedLine (length unique_subdomains)) of
                None \<Rightarrow> Inr unique_subdomains
              | Some e \<Rightarrow> load_error env e)
      | FileNotFound \<Rightarrow>
          (case print_all env [NotFoundLine 0, NotFoundLine 1, NotFoundLine 2, NotFoundLine 3] of
             None \<Rightarrow> Inl SysExit
           | Some e \<Rightarrow> Inl (Raised e))
      | ReadError e \<Rightarrow> load_error env e)"

section \<open>The run: \<^verbatim>\<open>enumerate_subdomains\<close>\<close>

text \<open>
  The pool with its loop over the futures, the probes running one after the other
  in the order of submission, each to its end: the run of a pool with one worker.
  Every probe runs, since leaving the \<^verbatim>\<open>with\<close> block waits for the pool. An
  exception that escaped a probe comes out of \<^verbatim>\<open>future.result()\<close> and is
  caught; with \<^verbatim>\<open>self.verbose\<close> the task error line is printed, and the first
  such \<^verbatim>\<open>print\<close> that raises ends the loop with its exception, the first
  component. The other components are the state and the network calls made.
\<close>

fun run_probes ::
  "enumerator \<Rightarrow> environment \<Rightarrow> pystr list \<Rightarrow> enum_state
     \<Rightarrow> exn option \<times> enum_state \<times> net_call list" where
  "run_probes self env [] st = (None, st, [])"
| "run_probes self env (sub # subdomains) st =
     (case check_subdomain self env sub st of
        (ret, st1, calls1) \<Rightarrow>
          (case run_probes self env subdomains st1 of
             (later, st2, calls2) \<Rightarrow>
               (case (case ret of
                        Inr v \<Rightarrow> None
                      | Inl e \<Rightarrow> if verbose self then console env (TaskErrorLine e) else None) of
                  Some e' \<Rightarrow> Some e'
                | None \<Rightarrow> later,
                st2, calls1 @ calls2)))"

text \<open>
  \<^verbatim>\<open>enumerate_subdomains\<close> up to the end of the \<^verbatim>\<open>with\<close> block: \<open>None\<close>
  when it gets there or returns. The wordlist loader may exit or raise; an empty
  wordlist returns before any probe; \<^verbatim>\<open>ThreadPoolExecutor\<close> raises
  \<^verbatim>\<open>ValueError\<close> for a \<^verbatim>\<open>max_workers\<close> that is not positive, before any
  probe. The banner and the progress lines of \<^verbatim>\<open>enumerate_subdomains\<close> itself,
  which stand outside every \<^verbatim>\<open>try\<close>, are taken as printed.
\<close>

definition enumerate_subdomains ::
  "enumerator \<Rightarrow> case_tables \<Rightarrow> environment \<Rightarrow> file_read \<Rightarrow> enum_state
     \<Rightarrow> stop option \<times> enum_state \<times> net_call list" where
  "enumerate_subdomains self tables env wordlist st =
     (case load_wordlist tables env wordlist of
        Inl s \<Rightarrow> (Some s, st, [])
      | Inr subdomains \<Rightarrow>
          if subdomains = [] then (None, st, [])
          else if max_threads self \<le> 0 then (Some (Raised OtherException), st, [])
          else
            (case run_probes self env subdomains st of
               (x, st', calls) \<Rightarrow> (map_option Raised x, st', calls)))"

subsection \<open>Probes running in worker threads\<close>

text \<open>
  A probe touches the shared state only inside its \<^verbatim>\<open>with self.lock\<close> blocks,
  and a block runs without another thread's block in between. So a probe is, for the
  shared state, the sequence of blocks it executes.
\<close>

datatype update = IncTested | Discover probe_result | IncErrors

fun apply_update :: "update \<Rightarrow> enum_state \<Rightarrow> enum_state" where
  "apply_update IncTested st = inc_tested st"
| "apply_update (Discover r) st = record_discovered r st"
| "apply_update IncErrors st = inc_errors st"

text \<open>
  The blocks \<^verbatim>\<open>check_subdomain\<close> executes, in order, read off its control flow
  (lemma \<open>check_subdomain_updates\<close> below shows that they are the ones of
  \<open>check_subdomain\<close>).
\<close>

definition probe_updates :: "enumerator \<Rightarrow> environment \<Rightarrow> pystr \<Rightarrow> update list" where
  "probe_updates self env sub =
     (let full_subdomain = full_name (domain self) sub;
          result = new_result env full_subdomain
      in IncTested #
         (case gethostbyname env full_subdomain of
            Inl e \<Rightarrow> (if e = GaiError then [] else [IncErrors])
          | Inr ip \<Rightarrow>
              (case test_http env full_subdomain (result\<lparr>ip_address := Some ip\<rparr>) of
                 Inl e \<Rightarrow> [IncErrors]
               | Inr r1 \<Rightarrow>
                   (case test_https env full_subdomain r1 of
                      Inl e \<Rightarrow> [IncErrors]
                    | Inr r2 \<Rightarrow>
                        (if http_accessible r2 \<or> https_accessible r2
                         then Discover r2 #
                              (case console env (found_line full_subdomain r2) of
                                 None \<Rightarrow> []
                               | Some e \<Rightarrow> [IncErrors])
                         else [])))))"

text \<open>
  A submitted probe: the blocks it has executed and the blocks it has still to
  execute. \<^verbatim>\<open>executor.submit\<close> for every candidate:
\<close>

type_synonym job = "update list \<times> update list"

definition submit_all :: "enumerator \<Rightarrow> environment \<Rightarrow> pystr list \<Rightarrow> job list" where
  "submit_all self env subdomains =
     map (\<lambda>sub. ([], probe_updates self env sub)) subdomains"

text \<open>
  One step of the pool: probe \<open>i\<close> executes its next block. A schedule is the
  list of the probes that step, in order; every interleaving of the probes, under
  any number of workers, is the run of some schedule.
\<close>

fun step :: "nat \<Rightarrow> enum_state \<times> job list \<Rightarrow> enum_state \<times> job list" where
  "step i (st, jobs) =
     (if i < length jobs then
        (case jobs ! i of
           (past, []) \<Rightarrow> (st, jobs)
         | (past, u # todo) \<Rightarrow> (apply_update u st, jobs[i := (past @ [u], todo)]))
      else (st, jobs))"

definition run_schedule ::
  "nat list \<Rightarrow> enum_state \<times> job list \<Rightarrow> enum_state \<times> job list" where
  "run_schedule sched c = foldl (\<lambda>c i. step i c) c sched"



text \<open>How often a probe's blocks touch each counter.\<close>

definition tested_incs :: "update list \<Rightarrow> nat" where
  "tested_incs us = length (filter (\<lambda>u. u = IncTested) us)"

definition discovered_incs :: "update list \<Rightarrow> nat" where
  "discovered_incs us = length (filter (\<lambda>u. case u of Discover r \<Rightarrow> True | _ \<Rightarrow> False) us)"

definition errors_incs :: "update list \<Rightarrow> nat" where
  "errors_incs us = length (filter (\<lambda>u. u = IncErrors) us)"

text \<open>
  A probe under way is well formed when its blocks, executed and to come, are
  \<^verbatim>\<open>tested += 1\<close> followed by at most one block that appends and at most one
  that counts an error.
\<close>

definition wf_job :: "job \<Rightarrow> bool" where
  "wf_job t =
     (\<exists>rest. fst t @ snd t = IncTested # rest \<and> tested_incs rest = 0 \<and>
             discovered_incs rest \<le> 1 \<and> errors_incs rest \<le> 1)"

text \<open>
  The counters agree with the blocks executed so far: each counter is the number of
  its increments among the executed blocks of all probes.
\<close>

definition counted :: "enum_state \<times> job list \<Rightarrow> bool" where
  "counted c =
     (tested (fst c) = int (sum_list (map (\<lambda>t. tested_incs (fst t)) (snd c))) \<and>
      discovered (fst c) = int (sum_list (map (\<lambda>t. discovered_incs (fst t)) (snd c))) \<and>
      errors (fst c) = int (sum_list (map (\<lambda>t. errors_incs (fst t)) (snd c))) \<and>
      list_all wf_job (snd c))"

section \<open>The reports: \<^verbatim>\<open>display_summary\<close> and \<^verbatim>\<open>save_results\<close>\<close>

text \<open>
  The entries that \<^verbatim>\<open>display_summary\<close> lists under
  \<^verbatim>\<open>Discovered Subdomains:\<close>, in the order of its loop over
  \<^verbatim>\<open>sorted(self.discovered_subdomains, key=lambda x: x['subdomain'])\<close>. Python's
  \<^verbatim>\<open>sorted\<close> is stable, as \<open>sort_key\<close> is.
\<close>

definition display_summary :: "enum_state \<Rightarrow> probe_result list" where
  "display_summary st =
     (if discovered_subdomains st \<noteq> [] then sort_key subdomain (discovered_subdomains st)
      else [])"

text \<open>\<^verbatim>\<open>str.endswith\<close>\<close>

definition endswith :: "pystr \<Rightarrow> pystr \<Rightarrow> bool" where
  "endswith s suffix =
     (length suffix \<le> length s \<and> drop (length s - length suffix) s = suffix)"

text \<open>
  What \<^verbatim>\<open>save_results\<close> writes: the JSON object (domain, timestamp, the
  counters, the discovered entries), the rows of the CSV file, or the lines of the
  text file. The two time stamps are parameters.
\<close>

datatype saved_file =
  JsonFile pystr pystr "int \<times> int \<times> int" "probe_result list"
| CsvFile "probe_result list"
| TextFile "pystr list"

definition save_results ::
  "enumerator \<Rightarrow> pystr \<Rightarrow> pystr \<Rightarrow> pystr \<Rightarrow> enum_state \<Rightarrow> saved_file" where
  "save_results self now_isoformat now_strftime output_file st =
     (if endswith output_file (py ''.json'') then
        JsonFile (domain self) now_isoformat (tested st, discovered st, errors st)
          (discovered_subdomains st)
      else if endswith output_file (py ''.csv'') then
        CsvFile (if discovered_subdomains st \<noteq> [] then discovered_subdomains st else [])
      else
        TextFile
          ([py ''Subdomain Enumeration Results for '' @ domain self,
            py ''Tool: Subdomain Enumeration Tool - Enhanced Version'',
            py ''Repository: https://github.com/3UN014/subdomain-enumeration'',
            py ''Timestamp: '' @ now_strftime,
            replicate 50 61,
            []]
           @ map subdomain (discovered_subdomains st)))"

text \<open>The host names of a saved file, in the order they stand in it.\<close>

fun saved_hosts :: "saved_file \<Rightarrow> pystr list" where
  "saved_hosts (JsonFile d t s rs) = map subdomain rs"
| "saved_hosts (CsvFile rs) = map subdomain rs"
| "saved_hosts (TextFile ls) = drop 6 ls"

section \<open>Inputs for the examples\<close>

text \<open>An enumerator for \<^verbatim>\<open>example.com\<close> with the default 50 threads, quiet and verbose.\<close>

definition example_self :: enumerator where
  "example_self = \<lparr>domain = py ''example.com'', max_threads = 50, verbose = False\<rparr>"

definition verbose_self :: enumerator where
  "verbose_self = \<lparr>domain = py ''example.com'', max_threads = 50, verbose = True\<rparr>"

text \<open>
  The scenario of the specification: \<^verbatim>\<open>www\<close> resolves and serves HTTP 200,
  \<^verbatim>\<open>api\<close> resolves but both connections are refused, every other name does not
  resolve; and the candidate \<^verbatim>\<open>a..b\<close>, whose empty label makes
  \<^verbatim>\<open>gethostbyname\<close> raise \<^verbatim>\<open>UnicodeError\<close>. Every line is printed.
\<close>

definition example_env :: environment where
  "example_env =
     \<lparr>gethostbyname = (\<lambda>h. if h = py ''www.example.com'' then Inr (py ''93.184.216.34'')
                          else if h = py ''api.example.com'' then Inr (py ''93.184.216.35'')
                          else if h = py ''a..b.example.com'' then Inl OtherException
                          else Inl GaiError),
      session_get = (\<lambda>u. if u = py ''http://www.example.com''
                          then Inr \<lparr>status_code = 200, server_header = Some (py ''nginx'')\<rparr>
                          else Inl RequestException),
      now_iso = (\<lambda>h. py ''2024-01-01T00:00:00''),
      console = (\<lambda>m. None)\<rparr>"


text \<open>The entry that the probe of \<^verbatim>\<open>www\<close> builds in that scenario.\<close>

definition www_entry :: probe_result where
  "www_entry =
     \<lparr>subdomain = py ''www.example.com'', http_accessible = True, https_accessible = False,
      http_status = Some 200, https_status = None, ip_address = Some (py ''93.184.216.34''),
      server = Some (py ''nginx''), discovered_at = py ''2024-01-01T00:00:00''\<rparr>"

text \<open>
  A host that answers on HTTP while the HTTPS request raises an exception that is
  not a \<^verbatim>\<open>RequestException\<close>.
\<close>

definition flaky_env :: environment where
  "flaky_env =
     \<lparr>gethostbyname = (\<lambda>h. if h = py ''www.example.com'' then Inr (py ''93.184.216.34'')
                          else Inl GaiError),
      session_get = (\<lambda>u. if u = py ''http://www.example.com''
                          then Inr \<lparr>status_code = 200, server_header = Some (py ''nginx'')\<rparr>
                          else if u = py ''https://www.example.com'' then Inl OtherException
                          else Inl RequestException),
      now_iso = (\<lambda>h. py ''2024-01-01T00:00:00''),
      console = (\<lambda>m. None)\<rparr>"

text \<open>
  A host whose HTTP response carries the header \<^verbatim>\<open>Server: Unknown\<close> and whose
  HTTPS response carries \<^verbatim>\<open>Server: nginx\<close>.
\<close>

definition sentinel_env :: environment where
  "sentinel_env =
     \<lparr>gethostbyname = (\<lambda>h. if h = py ''www.example.com'' then Inr (py ''93.184.216.34'')
                          else Inl GaiError),
      session_get = (\<lambda>u. if u = py ''http://www.example.com''
                          then Inr \<lparr>status_code = 200, server_header = Some (py ''Unknown'')\<rparr>
                          else if u = py ''https://www.example.com''
                          then Inr \<lparr>status_code = 200, server_header = Some (py ''nginx'')\<rparr>
                          else Inl RequestException),
      now_iso = (\<lambda>h. py ''2024-01-01T00:00:00''),
      console = (\<lambda>m. None)\<rparr>"

text \<open>A host that refuses HTTP and answers on HTTPS with a Server header.\<close>

definition https_only_env :: environment where
  "https_only_env =
     \<lparr>gethostbyname = (\<lambda>h. if h = py ''www.example.com'' then Inr (py ''93.184.216.34'')
                          else Inl GaiError),
      session_get = (\<lambda>u. if u = py ''https://www.example.com''
                          then Inr \<lparr>status_code = 200, server_header = Some (py ''nginx'')\<rparr>
                          else Inl RequestException),
      now_iso = (\<lambda>h. py ''2024-01-01T00:00:00''),
      console = (\<lambda>m. None)\<rparr>"

text \<open>Two hosts that both resolve and answer on HTTP.\<close>

definition two_hosts_env :: environment where
  "two_hosts_env =
     \<lparr>gethostbyname = (\<lambda>h. if h = py ''www.example.com'' then Inr (py ''93.184.216.34'')
                          else if h = py ''api.example.com'' then Inr (py ''93.184.216.35'')
                          else Inl GaiError),
      session_get = (\<lambda>u. if u = py ''http://www.example.com'' \<or> u = py ''http://api.example.com''
                          then Inr \<lparr>status_code = 200, server_header = Some (py ''nginx'')\<rparr>
                          else Inl RequestException),
      now_iso = (\<lambda>h. py ''2024-01-01T00:00:00''),
      console = (\<lambda>m. None)\<rparr>"

text \<open>The entry that the probe of \<^verbatim>\<open>api\<close> builds when both hosts answer.\<close>

definition api_entry :: probe_result where
  "api_entry =
     \<lparr>subdomain = py ''api.example.com'', http_accessible = True, https_accessible = False,
      http_status = Some 200, https_status = None, ip_address = Some (py ''93.184.216.35''),
      server = Some (py ''nginx''), discovered_at = py ''2024-01-01T00:00:00''\<rparr>"

text \<open>A wordlist of two lines, \<^verbatim>\<open>www\<close> and \<^verbatim>\<open>api\<close>.\<close>

definition two_hosts_wordlist :: pystr where
  "two_hosts_wordlist = py ''www'' @ [10] @ py ''api'' @ [10]"

text \<open>The state after the probe of \<^verbatim>\<open>www\<close> and then the probe of \<^verbatim>\<open>api\<close>.\<close>

definition two_hosts_state :: enum_state where
  "two_hosts_state =
     \<lparr>discovered_subdomains = [www_entry, api_entry], tested = 2, discovered = 2, errors = 0\<rparr>"



text \<open>
  Case tables for the examples: those of Python on the code points below 256, where
  the upper-case letters are A to Z and U+00C0 to U+00DE without the multiplication
  sign U+00D7, each 32 below its lower-case letter, and on U+2102, which is upper
  case and has no lower-case mapping. The examples hold no other code point.
\<close>

definition sample_tables :: case_tables where
  "sample_tables =
     \<lparr>to_lower_full =
        (\<lambda>c. if (65 \<le> c \<and> c \<le> 90) \<or> (192 \<le> c \<and> c \<le> 222 \<and> c \<noteq> 215) then [c + 32] else [c]),
      final_sigma = (\<lambda>s i. False),
      uppercase =
        (\<lambda>c. (65 \<le> c \<and> c \<le> 90) \<or> (192 \<le> c \<and> c \<le> 222 \<and> c \<noteq> 215) \<or> c = 8450)\<rparr>"

section \<open>Properties of the candidate source\<close>















section \<open>Properties of the probe\<close>

lemmas probe_defs = check_subdomain_def try_body_def test_http_def test_https_def
  new_result_def inc_tested_def inc_errors_def record_discovered_def

lemmas env_defs = full_name_def http_url_def https_url_def init_state_def py_def
  example_self_def verbose_self_def found_line_def status_parts_def




lemma run_probes_state:
  "fst (snd (run_probes self env (sub # subs) st)) =
     fst (snd (run_probes self env subs (fst (snd (check_subdomain self env sub st)))))"
  by (simp split: prod.splits)








lemma check_subdomain_complete:
  "\<forall>r\<in>set (discovered_subdomains st). complete_entry r \<Longrightarrow>
   \<forall>r\<in>set (discovered_subdomains (fst (snd (check_subdomain self env sub st)))).
      complete_entry r"
  apply (cases "gethostbyname env (full_name (domain self) sub)";
         cases "session_get env (http_url (full_name (domain self) sub))";
         cases "session_get env (https_url (full_name (domain self) sub))")
  apply (simp_all add: probe_defs complete_entry_def truthy_def Let_def
      split: if_splits option.splits)
  done

lemma run_probes_complete:
  "\<forall>r\<in>set (discovered_subdomains st). complete_entry r \<Longrightarrow>
   \<forall>r\<in>set (discovered_subdomains (fst (snd (run_probes self env subs st)))). complete_entry r"
proof (induction subs arbitrary: st)
  case Nil
  then show ?case by simp
next
  case (Cons a subs)
  from check_subdomain_complete [OF Cons.prems]
  have "\<forall>r\<in>set (discovered_subdomains (fst (snd (check_subdomain self env a st)))).
          complete_entry r" .
  from Cons.IH [OF this] show ?case unfolding run_probes_state .
qed

lemma appended_entry_fields:
  "(ret, st', calls) = check_subdomain self env sub st \<Longrightarrow>
   discovered_subdomains st' = discovered_subdomains st @ [r] \<Longrightarrow>
      complete_entry r \<and>
      ((\<forall>h. session_get env (http_url (full_name (domain self) sub)) = Inr h \<longrightarrow>
            server_header h = None) \<and>
       (\<forall>s. session_get env (https_url (full_name (domain self) sub)) = Inr s \<longrightarrow>
            server_header s = None)
         \<longrightarrow> server r = Some (py ''Unknown''))"
  apply (cases "gethostbyname env (full_name (domain self) sub)";
         cases "session_get env (http_url (full_name (domain self) sub))";
         cases "session_get env (https_url (full_name (domain self) sub))")
  apply (simp_all add: probe_defs headers_get_server_def truthy_def complete_entry_def Let_def
      split: if_splits option.splits)
  apply auto
  done

lemma probe_outcome:
  "(ret, st', calls) = check_subdomain self env sub st \<Longrightarrow>
     (reachable env (full_name (domain self) sub) \<longrightarrow>
        (\<exists>r. subdomain r = full_name (domain self) sub \<and>
             discovered_subdomains st' = discovered_subdomains st @ [r] \<and>
             discovered st' = discovered st + 1 \<and>
             ip_address r \<noteq> None \<and> (http_accessible r \<or> https_accessible r) \<and>
             (console env (found_line (full_name (domain self) sub) r) = None \<longrightarrow>
                ret = Inr (Some r)))) \<and>
     (\<not> reachable env (full_name (domain self) sub) \<longrightarrow>
        discovered_subdomains st' = discovered_subdomains st \<and>
        discovered st' = discovered st \<and>
        ((verbose self \<longrightarrow> (\<forall>e. console env (ErrorLine (full_name (domain self) sub) e) = None))
           \<longrightarrow> ret = Inr None))"
  apply (cases "gethostbyname env (full_name (domain self) sub)";
         cases "session_get env (http_url (full_name (domain self) sub))";
         cases "session_get env (https_url (full_name (domain self) sub))")
  apply (simp_all add: probe_defs reachable_def returned_def unexpected_def truthy_def Let_def
      split: if_splits option.splits)
  done


lemma check_subdomain_hosts:
  "map subdomain (discovered_subdomains (fst (snd (check_subdomain self env sub st)))) =
     map subdomain (discovered_subdomains st) @
       (if reachable env (full_name (domain self) sub) then [full_name (domain self) sub] else [])"
proof -
  let ?p = "check_subdomain self env sub st"
  have "(fst ?p, fst (snd ?p), snd (snd ?p)) = ?p" by simp
  from probe_outcome [OF this] show ?thesis by auto
qed

lemma run_probes_hosts:
  "map subdomain (discovered_subdomains (fst (snd (run_probes self env subs st)))) =
     map subdomain (discovered_subdomains st) @
       filter (reachable env) (map (full_name (domain self)) subs)"
proof (induction subs arbitrary: st)
  case Nil
  then show ?case by simp
next
  case (Cons a subs)
  show ?case
    unfolding run_probes_state by (simp add: Cons.IH check_subdomain_hosts)
qed

lemma example_www:
  "check_subdomain example_self example_env (py ''www'') init_state =
     (Inr (Some www_entry),
      \<lparr>discovered_subdomains = [www_entry], tested = 1, discovered = 1, errors = 0\<rparr>,
      [Gethostbyname (py ''www.example.com''), SessionGet (py ''http://www.example.com''),
       SessionGet (py ''https://www.example.com'')])"
  by (simp add: probe_defs env_defs example_env_def www_entry_def Let_def
      headers_get_server_def truthy_def)

lemma example_api:
  "check_subdomain example_self example_env (py ''api'') st =
     (Inr None, st\<lparr>tested := tested st + 1\<rparr>,
      [Gethostbyname (py ''api.example.com''), SessionGet (py ''http://api.example.com''),
       SessionGet (py ''https://api.example.com'')])"
  by (simp add: probe_defs env_defs example_env_def Let_def)

text \<open>
  C1, as amended. The probe appends its entry to the discovered list exactly when
  the name resolves, neither request raises an exception other than a
  \<^verbatim>\<open>RequestException\<close>, and at least one of the two requests returns a response.
  The entry then carries the address and at least one of the two flags, and it is
  what the probe returns when the found line is printed. In every other case, a
  resolution without a response among them, the list and the \<^verbatim>\<open>discovered\<close>
  counter are unchanged, and the probe returns \<^verbatim>\<open>None\<close> unless an error line
  is to be printed and that \<^verbatim>\<open>print\<close> raises. So the hosts of the discovered
  list after a run are the candidates' hosts for which that condition holds.
\<close>

theorem discovery_condition:
  "((ret, st', calls) = check_subdomain self env sub st \<longrightarrow>
     (reachable env (full_name (domain self) sub) \<longrightarrow>
        (\<exists>r. subdomain r = full_name (domain self) sub \<and>
             discovered_subdomains st' = discovered_subdomains st @ [r] \<and>
             discovered st' = discovered st + 1 \<and>
             ip_address r \<noteq> None \<and> (http_accessible r \<or> https_accessible r) \<and>
             (console env (found_line (full_name (domain self) sub) r) = None \<longrightarrow>
                ret = Inr (Some r)))) \<and>
     (\<not> reachable env (full_name (domain self) sub) \<longrightarrow>
        discovered_subdomains st' = discovered_subdomains st \<and>
        discovered st' = discovered st \<and>
        ((verbose self \<longrightarrow> (\<forall>e. console env (ErrorLine (full_name (domain self) sub) e) = None))
           \<longrightarrow> ret = Inr None))) \<and>
   map subdomain (discovered_subdomains (fst (snd (run_probes self env subs init_state)))) =
     filter (reachable env) (map (full_name (domain self)) subs)"
  using probe_outcome [of ret st' calls self env sub st]
    run_probes_hosts [of self env subs init_state]
  by (simp add: init_state_def)

theorem discovery_condition_witness:
  "reachable example_env (py ''www.example.com'') \<and>
   map subdomain (discovered_subdomains
      (fst (snd (check_subdomain example_self example_env (py ''www'') init_state))))
     = [py ''www.example.com''] \<and>
   \<not> reachable example_env (py ''api.example.com'') \<and>
   discovered_subdomains
      (fst (snd (check_subdomain example_self example_env (py ''api'') init_state))) = []"
proof -
  let ?w = "check_subdomain example_self example_env (py ''www'') init_state"
  let ?a = "check_subdomain example_self example_env (py ''api'') init_state"
  have w: "(fst ?w, fst (snd ?w), snd (snd ?w)) = ?w" by simp
  have a: "(fst ?a, fst (snd ?a), snd (snd ?a)) = ?a" by simp
  have rw: "reachable example_env (full_name (domain example_self) (py ''www''))"
    by (simp add: reachable_def returned_def unexpected_def example_env_def env_defs)
  have ra: "\<not> reachable example_env (full_name (domain example_self) (py ''api''))"
    by (simp add: reachable_def returned_def unexpected_def example_env_def env_defs)
  have n: "full_name (domain example_self) (py ''www'') = py ''www.example.com''"
    "full_name (domain example_self) (py ''api'') = py ''api.example.com''"
    by (simp_all add: env_defs)
  from discovery_condition
         [where ret = "fst ?w" and st' = "fst (snd ?w)" and calls = "snd (snd ?w)"
            and self = example_self and env = example_env and sub = "py ''www''"
            and st = init_state and subs = "[]"]
       discovery_condition
         [where ret = "fst ?a" and st' = "fst (snd ?a)" and calls = "snd (snd ?a)"
            and self = example_self and env = example_env and sub = "py ''api''"
            and st = init_state and subs = "[]"]
       w a rw ra
  show ?thesis
    unfolding n by (auto simp: init_state_def)
qed

text \<open>
  C1 as it is stated fails: the name resolves and the HTTP request returns a
  response, the HTTPS request raises an exception that is not a
  \<^verbatim>\<open>RequestException\<close>, and the handler \<^verbatim>\<open>except Exception\<close> ends the probe
  before the entry is appended.
\<close>

theorem discovery_counterexample:
  "returned (gethostbyname flaky_env (py ''www.example.com'')) \<and>
   returned (session_get flaky_env (py ''http://www.example.com'')) \<and>
   discovered_subdomains
     (fst (snd (check_subdomain example_self flaky_env (py ''www'') init_state))) = []"
  by (simp add: probe_defs flaky_env_def returned_def env_defs Let_def)

text \<open>
  C3, as amended. When \<^verbatim>\<open>gethostbyname\<close> raises \<^verbatim>\<open>gaierror\<close>, the probe
  makes no HTTP or HTTPS request: the resolution is its only network call. It returns
  at once, and what it returns is \<^verbatim>\<open>None\<close>, not a result. No exception leaves
  it, and of the shared state only \<^verbatim>\<open>tested\<close> changes: nothing is appended to the
  discovered list, and neither \<^verbatim>\<open>discovered\<close> nor \<^verbatim>\<open>errors\<close> is
  incremented.
\<close>

theorem resolution_failure_short_circuit:
  assumes "gethostbyname env (full_name (domain self) sub) = Inl GaiError"
  shows "check_subdomain self env sub st =
           (Inr None, st\<lparr>tested := tested st + 1\<rparr>,
            [Gethostbyname (full_name (domain self) sub)])"
  using assms by (simp add: check_subdomain_def try_body_def inc_tested_def)

theorem resolution_failure_short_circuit_witness:
  "check_subdomain example_self example_env (py ''ghost'') init_state =
     (Inr None, init_state\<lparr>tested := 1\<rparr>, [Gethostbyname (py ''ghost.example.com'')])"
proof -
  have n: "full_name (domain example_self) (py ''ghost'') = py ''ghost.example.com''"
    by (simp add: env_defs)
  have h: "gethostbyname example_env (full_name (domain example_self) (py ''ghost'')) = Inl GaiError"
    by (simp add: example_env_def env_defs)
  show ?thesis
    using resolution_failure_short_circuit [OF h, of init_state]
    unfolding n by (simp add: init_state_def)
qed

text \<open>
  C3 as it is stated fails in what is returned: for a name that does not resolve the
  probe returns \<^verbatim>\<open>None\<close>, no result marked as unresolved.
\<close>

theorem resolution_failure_counterexample:
  "gethostbyname example_env (py ''ghost.example.com'') = Inl GaiError \<and>
   fst (check_subdomain example_self example_env (py ''ghost'') init_state) = Inr None"
  by (simp add: probe_defs example_env_def env_defs Let_def)




text \<open>
  C8, as amended. The server string of an entry that the probe returns or appends is
  the Server header of the HTTP response when the HTTP request returned one that is
  neither empty nor the string \<^verbatim>\<open>Unknown\<close>. Otherwise, when the HTTPS request
  returned a response, it is \<^verbatim>\<open>headers.get('Server', 'Unknown')\<close> of that
  response; and when only the HTTP request returned a response, it is the same
  expression of the HTTP response. In particular a host whose HTTP request fails and
  whose HTTPS response has a Server header gets that header.
\<close>

theorem server_banner_choice:
  "(ret, st', calls) = check_subdomain self env sub st \<Longrightarrow>
   ret = Inr (Some r) \<or> discovered_subdomains st' = discovered_subdomains st @ [r] \<Longrightarrow>
     server r =
       (case http_banner env (full_name (domain self) sub) of
          Some v \<Rightarrow> Some v
        | None \<Rightarrow>
            (case session_get env (https_url (full_name (domain self) sub)) of
               Inr s \<Rightarrow> Some (headers_get_server s)
             | Inl e \<Rightarrow>
                 (case session_get env (http_url (full_name (domain self) sub)) of
                    Inr h \<Rightarrow> Some (headers_get_server h)
                  | Inl e' \<Rightarrow> None))) \<and>
     (\<forall>e s v. session_get env (http_url (full_name (domain self) sub)) = Inl e \<and>
              session_get env (https_url (full_name (domain self) sub)) = Inr s \<and>
              server_header s = Some v \<longrightarrow> server r = Some v)"
  apply (cases "gethostbyname env (full_name (domain self) sub)";
         cases "session_get env (http_url (full_name (domain self) sub))";
         cases "session_get env (https_url (full_name (domain self) sub))")
  apply (simp_all add: probe_defs http_banner_def headers_get_server_def truthy_def Let_def
      split: if_splits option.splits)
  apply (auto split: option.splits)
  done

theorem server_banner_choice_witness:
  "map server (discovered_subdomains
      (fst (snd (check_subdomain example_self https_only_env (py ''www'') init_state))))
     = [Some (py ''nginx'')]"
proof -
  let ?w = "check_subdomain example_self https_only_env (py ''www'') init_state"
  have w: "(fst ?w, fst (snd ?w), snd (snd ?w)) = ?w" by simp
  obtain r where r: "fst ?w = Inr (Some r)" "discovered_subdomains (fst (snd ?w)) = [r]"
    by (simp add: probe_defs https_only_env_def env_defs Let_def truthy_def)
  from server_banner_choice [OF w disjI1 [OF r(1)]]
  have "server r = Some (py ''nginx'')"
    by (simp add: http_banner_def https_only_env_def env_defs headers_get_server_def)
  with r(2) show ?thesis by simp
qed

text \<open>
  C8 as it is stated fails: the HTTP response carries a Server header, whose value is
  the string \<^verbatim>\<open>Unknown\<close>, and the entry gets the header of the HTTPS response.
\<close>

theorem server_banner_counterexample:
  "session_get sentinel_env (py ''http://www.example.com'') =
     Inr \<lparr>status_code = 200, server_header = Some (py ''Unknown'')\<rparr> \<and>
   map server (discovered_subdomains
      (fst (snd (check_subdomain example_self sentinel_env (py ''www'') init_state))))
     = [Some (py ''nginx'')]"
  by (simp add: probe_defs sentinel_env_def env_defs Let_def truthy_def headers_get_server_def)

text \<open>
  C10. An entry that a probe appends to the discovered list has an address and a
  server string, neither is \<^verbatim>\<open>None\<close>; and when no response that the probe got
  has a Server header, the server string is \<^verbatim>\<open>Unknown\<close>. So every entry of the
  list after a run from the initial state has both.
\<close>

theorem discovered_entry_fields:
  "((ret, st', calls) = check_subdomain self env sub st \<and>
    discovered_subdomains st' = discovered_subdomains st @ [r] \<longrightarrow>
      ip_address r \<noteq> None \<and> server r \<noteq> None \<and>
      ((\<forall>h. session_get env (http_url (full_name (domain self) sub)) = Inr h \<longrightarrow>
            server_header h = None) \<and>
       (\<forall>s. session_get env (https_url (full_name (domain self) sub)) = Inr s \<longrightarrow>
            server_header s = None)
         \<longrightarrow> server r = Some (py ''Unknown''))) \<and>
   (\<forall>r\<in>set (discovered_subdomains (fst (snd (run_probes self env subs init_state)))).
      ip_address r \<noteq> None \<and> server r \<noteq> None)"
proof
  show "(ret, st', calls) = check_subdomain self env sub st \<and>
    discovered_subdomains st' = discovered_subdomains st @ [r] \<longrightarrow>
      ip_address r \<noteq> None \<and> server r \<noteq> None \<and>
      ((\<forall>h. session_get env (http_url (full_name (domain self) sub)) = Inr h \<longrightarrow>
            server_header h = None) \<and>
       (\<forall>s. session_get env (https_url (full_name (domain self) sub)) = Inr s \<longrightarrow>
            server_header s = None)
         \<longrightarrow> server r = Some (py ''Unknown''))"
    using appended_entry_fields [of ret st' calls self env sub st r]
    unfolding complete_entry_def by blast
  have "\<forall>r\<in>set (discovered_subdomains init_state). complete_entry r"
    by (simp add: init_state_def)
  from run_probes_complete [OF this]
  show "\<forall>r\<in>set (discovered_subdomains (fst (snd (run_probes self env subs init_state)))).
      ip_address r \<noteq> None \<and> server r \<noteq> None"
    unfolding complete_entry_def by blast
qed

theorem discovered_entry_fields_witness:
  "discovered_subdomains
     (fst (snd (run_probes example_self example_env [py ''www'', py ''api''] init_state)))
     = [www_entry] \<and>
   ip_address www_entry \<noteq> None \<and> server www_entry \<noteq> None"
proof -
  let ?w = "check_subdomain example_self example_env (py ''www'') init_state"
  have w: "(fst ?w, fst (snd ?w), snd (snd ?w)) = ?w \<and>
           discovered_subdomains (fst (snd ?w)) = discovered_subdomains init_state @ [www_entry]"
    unfolding example_www by (simp add: init_state_def)
  have run: "discovered_subdomains
       (fst (snd (run_probes example_self example_env [py ''www'', py ''api''] init_state)))
       = [www_entry]"
    by (simp add: example_www example_api)
  from discovered_entry_fields
         [where ret = "fst ?w" and st' = "fst (snd ?w)" and calls = "snd (snd ?w)"
            and self = example_self and env = example_env and sub = "py ''www''"
            and st = init_state and r = www_entry and subs = "[py ''www'', py ''api'']"]
       w run
  show ?thesis by simp
qed

section \<open>Properties of the run\<close>

lemma example_updates:
  "probe_updates example_self example_env (py ''www'') = [IncTested, Discover www_entry]"
  "probe_updates example_self example_env (py ''api'') = [IncTested]"
  "probe_updates example_self example_env (py ''ghost'') = [IncTested]"
  "probe_updates example_self example_env (py ''a..b'') = [IncTested, IncErrors]"
  by (simp_all add: probe_updates_def test_http_def test_https_def new_result_def example_env_def
      env_defs www_entry_def Let_def headers_get_server_def truthy_def)


lemma two_hosts_load:
  "load_wordlist sample_tables two_hosts_env (FileContent two_hosts_wordlist)
     = Inr [py ''www'', py ''api'']"
  by (simp add: two_hosts_wordlist_def load_wordlist_def normalised_lines_def strip_def lower_def
      lower_at_def sample_tables_def isspace_def py_def two_hosts_env_def)

lemma two_hosts_run:
  "run_probes example_self two_hosts_env [py ''www'', py ''api''] init_state =
     (None, two_hosts_state,
      [Gethostbyname (py ''www.example.com''), SessionGet (py ''http://www.example.com''),
       SessionGet (py ''https://www.example.com''),
       Gethostbyname (py ''api.example.com''), SessionGet (py ''http://api.example.com''),
       SessionGet (py ''https://api.example.com'')])"
  by (simp add: probe_defs env_defs two_hosts_env_def www_entry_def api_entry_def
      two_hosts_state_def Let_def headers_get_server_def truthy_def)

lemma two_hosts_enumerate:
  "enumerate_subdomains example_self sample_tables two_hosts_env (FileContent two_hosts_wordlist)
     init_state =
     (None, two_hosts_state,
      [Gethostbyname (py ''www.example.com''), SessionGet (py ''http://www.example.com''),
       SessionGet (py ''https://www.example.com''),
       Gethostbyname (py ''api.example.com''), SessionGet (py ''http://api.example.com''),
       SessionGet (py ''https://api.example.com'')])"
proof -
  have t: "max_threads example_self = 50" by (simp add: example_self_def)
  show ?thesis
    unfolding enumerate_subdomains_def two_hosts_load
    by (simp add: t two_hosts_run del: run_probes.simps)
qed

lemma probe_updates_shape:
  "\<exists>rest. probe_updates self env sub = IncTested # rest \<and>
          (rest = [] \<or> rest = [IncErrors] \<or> (\<exists>r. rest = [Discover r]) \<or>
           (\<exists>r. rest = [Discover r, IncErrors]))"
  by (simp add: probe_updates_def Let_def split: sum.splits option.splits)

lemma check_subdomain_updates:
  "fst (snd (check_subdomain self env sub st)) =
     foldl (\<lambda>s u. apply_update u s) st (probe_updates self env sub)"
  by (simp add: check_subdomain_def try_body_def probe_updates_def Let_def
      split: sum.splits option.splits)

lemma sum_list_map_update:
  fixes f :: "'a \<Rightarrow> nat"
  shows "i < length xs \<Longrightarrow> sum_list (map f (xs[i := y])) + f (xs ! i) = sum_list (map f xs) + f y"
proof (induction xs arbitrary: i)
  case Nil
  then show ?case by simp
next
  case (Cons x xs)
  then show ?case by (cases i) auto
qed

lemma incs_append:
  "tested_incs (us @ vs) = tested_incs us + tested_incs vs"
  "discovered_incs (us @ vs) = discovered_incs us + discovered_incs vs"
  "errors_incs (us @ vs) = errors_incs us + errors_incs vs"
  by (simp_all add: tested_incs_def discovered_incs_def errors_incs_def)

lemma incs_single:
  "tested_incs [u] = (if u = IncTested then 1 else 0)"
  "discovered_incs [u] = (case u of Discover r \<Rightarrow> 1 | _ \<Rightarrow> 0)"
  "errors_incs [u] = (if u = IncErrors then 1 else 0)"
  by (simp_all add: tested_incs_def discovered_incs_def errors_incs_def split: update.splits)

lemma incs_Cons_tested:
  "tested_incs (IncTested # us) = Suc (tested_incs us)"
  "discovered_incs (IncTested # us) = discovered_incs us"
  "errors_incs (IncTested # us) = errors_incs us"
  by (simp_all add: tested_incs_def discovered_incs_def errors_incs_def)

lemma wf_job_prefix:
  assumes "wf_job t"
  shows "discovered_incs (fst t) \<le> tested_incs (fst t)"
    and "errors_incs (fst t) \<le> tested_incs (fst t)"
    and "snd t = [] \<Longrightarrow> tested_incs (fst t) = 1"
proof -
  from assms obtain rest where r: "fst t @ snd t = IncTested # rest" "tested_incs rest = 0"
    "discovered_incs rest \<le> 1" "errors_incs rest \<le> 1" unfolding wf_job_def by blast
  have *: "discovered_incs (fst t) \<le> tested_incs (fst t) \<and>
           errors_incs (fst t) \<le> tested_incs (fst t)"
  proof (cases "fst t")
    case Nil
    then show ?thesis by (simp add: discovered_incs_def errors_incs_def)
  next
    case (Cons x xs)
    with r(1) have x: "x = IncTested" and rest: "rest = xs @ snd t" by auto
    from r(3,4) have "discovered_incs xs \<le> 1" "errors_incs xs \<le> 1"
      by (simp_all add: rest incs_append)
    then show ?thesis by (simp add: Cons x incs_Cons_tested)
  qed
  from * show "discovered_incs (fst t) \<le> tested_incs (fst t)" by simp
  from * show "errors_incs (fst t) \<le> tested_incs (fst t)" by simp
  show "tested_incs (fst t) = 1" if "snd t = []"
  proof -
    from that r have "fst t = IncTested # rest" by simp
    with r(2) show ?thesis by (simp add: incs_Cons_tested)
  qed
qed

lemma counted_step: "counted c \<Longrightarrow> counted (step i c)"
proof -
  assume c: "counted c"
  obtain st jobs where [simp]: "c = (st, jobs)" by (cases c)
  show ?thesis
  proof (cases "i < length jobs")
    case False
    with c show ?thesis by simp
  next
    case True
    obtain past todo where t: "jobs ! i = (past, todo)" by (cases "jobs ! i")
    show ?thesis
    proof (cases todo)
      case Nil
      with c True t show ?thesis by simp
    next
      case (Cons u todo')
      let ?t' = "(past @ [u], todo')"
      have st: "step i c = (apply_update u st, jobs[i := ?t'])"
        using True t Cons by simp
      have "wf_job (jobs ! i)"
        using c True by (simp add: counted_def list_all_length)
      then have "wf_job ?t'" using t Cons by (simp add: wf_job_def)
      then have wf: "list_all wf_job (jobs[i := ?t'])"
        using c True
        by (auto simp: counted_def list_all_iff dest: subsetD [OF set_update_subset_insert])
      note s = sum_list_map_update [OF True, of _ ?t', unfolded t]
      from s [of "\<lambda>t. tested_incs (fst t)"] s [of "\<lambda>t. discovered_incs (fst t)"]
        s [of "\<lambda>t. errors_incs (fst t)"] c wf
      show ?thesis
        unfolding st counted_def
        by (cases u)
          (simp_all add: incs_append incs_single inc_tested_def inc_errors_def
             record_discovered_def)
    qed
  qed
qed

lemma counted_run: "counted c \<Longrightarrow> counted (run_schedule sched c)"
  unfolding run_schedule_def
  by (induction sched arbitrary: c) (simp_all add: counted_step)

lemma counted_start: "counted (init_state, submit_all self env subs)"
proof -
  have "wf_job ([], probe_updates self env sub)" for sub
    using probe_updates_shape [of self env sub]
    by (auto simp: wf_job_def tested_incs_def discovered_incs_def errors_incs_def)
  then show ?thesis
    by (simp add: counted_def init_state_def submit_all_def comp_def list_all_iff
        tested_incs_def discovered_incs_def errors_incs_def)
qed




lemma counted_le:
  assumes "counted c"
  shows "discovered (fst c) \<le> tested (fst c)" and "errors (fst c) \<le> tested (fst c)"
proof -
  from assms have wf: "\<And>t. t \<in> set (snd c) \<Longrightarrow> wf_job t"
    by (simp add: counted_def list_all_iff)
  have "sum_list (map (\<lambda>t. discovered_incs (fst t)) (snd c))
          \<le> sum_list (map (\<lambda>t. tested_incs (fst t)) (snd c))"
    by (rule sum_list_mono) (simp add: wf wf_job_prefix(1))
  with assms show "discovered (fst c) \<le> tested (fst c)" by (simp add: counted_def)
  have "sum_list (map (\<lambda>t. errors_incs (fst t)) (snd c))
          \<le> sum_list (map (\<lambda>t. tested_incs (fst t)) (snd c))"
    by (rule sum_list_mono) (simp add: wf wf_job_prefix(2))
  with assms show "errors (fst c) \<le> tested (fst c)" by (simp add: counted_def)
qed








text \<open>
  C5. Whatever the interleaving of the probes' locked blocks, and however far the run
  has got, \<^verbatim>\<open>discovered\<close> and \<^verbatim>\<open>errors\<close> are at most \<^verbatim>\<open>tested\<close>. The
  first block of every probe is \<^verbatim>\<open>tested += 1\<close>, no later block of the probe
  touches \<^verbatim>\<open>tested\<close>, and the probe increments \<^verbatim>\<open>discovered\<close> at most once
  and \<^verbatim>\<open>errors\<close> at most once. These blocks are the state changes of
  \<^verbatim>\<open>check_subdomain\<close>.
\<close>

theorem counters_consistent:
  "discovered (fst (run_schedule sched (init_state, submit_all self env subs)))
     \<le> tested (fst (run_schedule sched (init_state, submit_all self env subs))) \<and>
   errors (fst (run_schedule sched (init_state, submit_all self env subs)))
     \<le> tested (fst (run_schedule sched (init_state, submit_all self env subs))) \<and>
   (\<exists>rest. probe_updates self env sub = IncTested # rest \<and> tested_incs rest = 0 \<and>
           discovered_incs rest \<le> 1 \<and> errors_incs rest \<le> 1) \<and>
   fst (snd (check_subdomain self env sub st)) =
     foldl (\<lambda>s u. apply_update u s) st (probe_updates self env sub)"
proof -
  have "counted (run_schedule sched (init_state, submit_all self env subs))"
    by (rule counted_run) (rule counted_start)
  from counted_le [OF this] probe_updates_shape [of self env sub]
  show ?thesis
    by (auto simp: check_subdomain_updates tested_incs_def discovered_incs_def errors_incs_def)
qed

theorem counters_consistent_witness:
  "discovered (fst (run_schedule [1, 0, 2, 0]
      (init_state, submit_all example_self example_env
                     [py ''www'', py ''api'', py ''ghost'', py ''a..b''])))
     \<le> tested (fst (run_schedule [1, 0, 2, 0]
      (init_state, submit_all example_self example_env
                     [py ''www'', py ''api'', py ''ghost'', py ''a..b''])))
   \<and> probe_updates example_self example_env (py ''www'') = [IncTested, Discover www_entry]"
  using counters_consistent
          [where sched = "[1, 0, 2, 0]" and self = example_self and env = example_env
             and subs = "[py ''www'', py ''api'', py ''ghost'', py ''a..b'']"
             and sub = "py ''www''" and st = init_state]
  by (simp add: example_updates)



section \<open>Properties of the reports\<close>

lemma display_summary_sorted:
  "sorted (map subdomain (display_summary st)) \<and>
   set (display_summary st) = set (discovered_subdomains st) \<and>
   length (display_summary st) = length (discovered_subdomains st)"
  by (simp add: display_summary_def)

lemma saved_hosts_order:
  "saved_hosts (save_results self t1 t2 output_file st) = map subdomain (discovered_subdomains st)"
  by (simp add: save_results_def)

text \<open>
  C2 fails for the saved file. With the wordlist \<^verbatim>\<open>www\<close>, \<^verbatim>\<open>api\<close> and both
  hosts answering, the probe of \<^verbatim>\<open>www\<close> ends first; the summary lists
  \<^verbatim>\<open>api.example.com\<close> before \<^verbatim>\<open>www.example.com\<close>, and the text, JSON and CSV
  files all hold \<^verbatim>\<open>www.example.com\<close> before \<^verbatim>\<open>api.example.com\<close>, the order of
  discovery, which is not ascending.
\<close>

theorem saved_results_unsorted:
  "fst (enumerate_subdomains example_self sample_tables two_hosts_env
          (FileContent two_hosts_wordlist) init_state) = None \<and>
   fst (snd (enumerate_subdomains example_self sample_tables two_hosts_env
               (FileContent two_hosts_wordlist) init_state)) = two_hosts_state \<and>
   saved_hosts (save_results example_self (py ''2024-01-01T00:00:09'') (py ''2024-01-01 00:00:09'')
                  (py ''results.txt'') two_hosts_state)
     = [py ''www.example.com'', py ''api.example.com''] \<and>
   saved_hosts (save_results example_self (py ''2024-01-01T00:00:09'') (py ''2024-01-01 00:00:09'')
                  (py ''results.json'') two_hosts_state)
     = [py ''www.example.com'', py ''api.example.com''] \<and>
   saved_hosts (save_results example_self (py ''2024-01-01T00:00:09'') (py ''2024-01-01 00:00:09'')
                  (py ''results.csv'') two_hosts_state)
     = [py ''www.example.com'', py ''api.example.com''] \<and>
   \<not> sorted [py ''www.example.com'', py ''api.example.com''] \<and>
   map subdomain (display_summary two_hosts_state)
     = [py ''api.example.com'', py ''www.example.com'']"
proof -
  have 1: "fst (snd (enumerate_subdomains example_self sample_tables two_hosts_env
               (FileContent two_hosts_wordlist) init_state)) = two_hosts_state"
    by (simp add: two_hosts_enumerate)
  have h: "map subdomain (discovered_subdomains two_hosts_state)
             = [py ''www.example.com'', py ''api.example.com'']"
    by (simp add: two_hosts_state_def www_entry_def api_entry_def)
  have 5: "\<not> sorted [py ''www.example.com'', py ''api.example.com'']"
    by (simp add: py_def)
  have 6: "map subdomain (display_summary two_hosts_state)
             = [py ''api.example.com'', py ''www.example.com'']"
    by (simp add: display_summary_def two_hosts_state_def www_entry_def api_entry_def py_def)
  have 0: "fst (enumerate_subdomains example_self sample_tables two_hosts_env
          (FileContent two_hosts_wordlist) init_state) = None"
    by (simp add: two_hosts_enumerate)
  from 0 1 h 5 6 show ?thesis by (simp add: saved_hosts_order)
qed

end
